theory Spec2Isabelle
  imports Main "HOL-Library.Multiset"
begin

section \<open>Data model\<close>

text \<open>
  A parsed GenBank entry as the script reads it: \<open>record.id\<close>, \<open>record.seq\<close>
  (only its length is ever used) and \<open>record.description\<close>.
\<close>

record seq_record =
  rec_id :: string
  rec_seq :: string
  rec_description :: string

definition seq_len :: "seq_record \<Rightarrow> int" where
  \<comment> \<open>\<open>len(record.seq)\<close>, a Python int\<close>
  "seq_len r = int (length (rec_seq r))"

text \<open>
  Exceptions the script can meet. \<open>RemoteError\<close> stands for anything the Entrez
  library raises (network, HTTP, malformed XML); the others are raised by the
  interpreter on the script's own indexing, conversions and calls.
\<close>

datatype exn = RemoteError string | IndexError | KeyError string | ValueError | TypeError

type_synonym addr = nat

section \<open>The outside world\<close>

text \<open>
  A printed line is kept with its interpolated value unrendered where that value is not
  a string: \<open>LineInt a n b\<close> is \<open>print(f"a{n}b")\<close>, \<open>LineExn a e\<close> is
  \<open>print(f"a{e}")\<close>.
\<close>

datatype line = Line string | LineInt string int string | LineExn string exn

text \<open>
  A cell of a table column: a string, an integer, or a reference to a list object
  (Python stores references, so a list appended to a list is a \<open>CList\<close> cell).
\<close>

datatype cell = CStr string | CInt int | CList addr

text \<open>
  The file \<open>to_csv\<close> writes, as fields before text rendering: the header line and the
  data lines.
\<close>

record csv_file =
  csv_header :: "string list"
  csv_rows :: "cell list list"

text \<open>What \<open>ax.plot(accession_numbers, seq_lengths, marker="o")\<close> draws.\<close>

record chart =
  chart_x :: "string list"
  chart_y :: "int list"

datatype file_content = CsvFile csv_file | ChartFile chart | TextFile string

text \<open>Requests sent to the remote service, in the order they are made.\<close>

datatype remote_call =
    EfetchTaxonomy string
  | EsearchNucleotide string
  | EfetchNucleotide int int string string
    \<comment> \<open>retstart, retmax, webenv, query_key\<close>

record world =
  console :: "line list"
  calls :: "remote_call list"
  files :: "string \<rightharpoonup> file_content"

definition say :: "line \<Rightarrow> world \<Rightarrow> world" where
  "say l w = w\<lparr>console := console w @ [l]\<rparr>"

definition request :: "remote_call \<Rightarrow> world \<Rightarrow> world" where
  "request c w = w\<lparr>calls := calls w @ [c]\<rparr>"

definition write_file :: "string \<Rightarrow> file_content \<Rightarrow> world \<Rightarrow> world" where
  "write_file path content w = w\<lparr>files := (files w)(path \<mapsto> content)\<rparr>"

text \<open>
  The remote service is an external collaborator: its answers are parameters. Each
  field is the library call together with the read of its handle, so either may raise.
  Parsed XML is a dictionary from element names to text.
\<close>

record entrez =
  efetch_taxonomy :: "string \<Rightarrow> exn + (string \<rightharpoonup> string) list"
  esearch_nucleotide :: "string \<Rightarrow> exn + (string \<rightharpoonup> string)"
  efetch_nucleotide :: "int \<Rightarrow> int \<Rightarrow> string \<Rightarrow> string \<Rightarrow> exn + string"

section \<open>Python built-ins used by the script\<close>

definition getitem :: "(string \<rightharpoonup> string) \<Rightarrow> string \<Rightarrow> exn + string" where
  \<comment> \<open>\<open>d[k]\<close>\<close>
  "getitem d k = (case d k of None \<Rightarrow> Inl (KeyError k) | Some v \<Rightarrow> Inr v)"

definition first_item :: "'a list \<Rightarrow> exn + 'a" where
  \<comment> \<open>\<open>xs[0]\<close>\<close>
  "first_item xs = (case xs of [] \<Rightarrow> Inl IndexError | x # _ \<Rightarrow> Inr x)"

text \<open>
  Strings are modelled over the code points 0 to 255. There \<open>str.isspace\<close> holds of
  tab, line feed, vertical tab, form feed, carriage return, the four separators
  0x1C to 0x1F, space, next-line 0x85 and no-break space 0xA0, and the decimal digits are
  \<open>0\<close> to \<open>9\<close>.
\<close>

definition py_isspace :: "char \<Rightarrow> bool" where
  "py_isspace c = ((of_char c :: nat) \<in> {9, 10, 11, 12, 13, 28, 29, 30, 31, 32, 133, 160})"

definition py_isdigit :: "char \<Rightarrow> bool" where
  "py_isdigit c = (48 \<le> (of_char c :: nat) \<and> (of_char c :: nat) \<le> 57)"

definition digit_value :: "char \<Rightarrow> nat" where
  "digit_value c = of_char c - 48"

definition py_strip :: "string \<Rightarrow> string" where
  \<comment> \<open>\<open>s.strip()\<close>\<close>
  "py_strip s = rev (dropWhile py_isspace (rev (dropWhile py_isspace s)))"

text \<open>
  The digits of a base-10 literal: at least one digit, single underscores allowed
  between digits only. The flag says whether the previous character was a digit.
\<close>

fun int_digits :: "bool \<Rightarrow> nat \<Rightarrow> string \<Rightarrow> nat option" where
  "int_digits prev acc [] = (if prev then Some acc else None)"
| "int_digits prev acc (c # cs) =
     (if py_isdigit c then int_digits True (10 * acc + digit_value c) cs
      else if c = CHR ''_'' \<and> prev then int_digits False acc cs
      else None)"

definition py_int :: "string \<Rightarrow> int option" where
  \<comment> \<open>\<open>int(s)\<close> on a string; \<open>None\<close> is \<open>ValueError\<close>. Surrounding whitespace is
      skipped, then an optional sign, then the digits.\<close>
  "py_int s =
     (case py_strip s of
        [] \<Rightarrow> None
      | c # cs \<Rightarrow>
          if c = CHR ''-'' then map_option (\<lambda>n. - int n) (int_digits False 0 cs)
          else if c = CHR ''+'' then map_option int (int_digits False 0 cs)
          else map_option int (int_digits False 0 (c # cs)))"

section \<open>NCBIRetriever\<close>

text \<open>
  The attributes \<open>webenv\<close>, \<open>query_key\<close> and \<open>count\<close> do not exist until
  \<open>search_taxid\<close> assigns them: \<open>None\<close> is "no such attribute", so
  \<open>hasattr(self, 'webenv')\<close> is \<open>webenv self \<noteq> None\<close>.
\<close>

record retriever =
  email :: string
  api_key :: string
  webenv :: "string option"
  query_key :: "string option"
  count :: "int option"

definition NCBIRetriever :: "string \<Rightarrow> string \<Rightarrow> retriever" where
  "NCBIRetriever e k = \<lparr>email = e, api_key = k, webenv = None, query_key = None, count = None\<rparr>"

definition search_failed :: "string \<Rightarrow> exn \<Rightarrow> retriever \<Rightarrow> world \<Rightarrow> int option \<times> retriever \<times> world" where
  \<comment> \<open>the \<open>except Exception as e\<close> handler of \<open>search_taxid\<close>\<close>
  "search_failed taxid e self w =
     (None, self, say (LineExn (''Error searching TaxID '' @ taxid @ '': '') e) w)"

definition search_taxid :: "entrez \<Rightarrow> string \<Rightarrow> retriever \<Rightarrow> world \<Rightarrow> int option \<times> retriever \<times> world" where
  "search_taxid E taxid self w =
     (let w1 = say (Line (''Searching for records with taxID: '' @ taxid)) w;
          w2 = request (EfetchTaxonomy taxid) w1
      in case efetch_taxonomy E taxid of
           Inl e \<Rightarrow> search_failed taxid e self w2
         | Inr records \<Rightarrow>
       (case first_item records of
           Inl e \<Rightarrow> search_failed taxid e self w2
         | Inr record0 \<Rightarrow>
       (case getitem record0 ''ScientificName'' of
           Inl e \<Rightarrow> search_failed taxid e self w2
         | Inr organism_name \<Rightarrow>
       (let w3 = say (Line (''Organism: '' @ organism_name @ '' (TaxID: '' @ taxid @ '')'')) w2;
            search_term = ''txid'' @ taxid @ ''[Organism]'';
            w4 = request (EsearchNucleotide search_term) w3
        in case esearch_nucleotide E search_term of
           Inl e \<Rightarrow> search_failed taxid e self w4
         | Inr search_results \<Rightarrow>
       (case getitem search_results ''Count'' of
           Inl e \<Rightarrow> search_failed taxid e self w4
         | Inr count_text \<Rightarrow>
       (case py_int count_text of
           None \<Rightarrow> search_failed taxid ValueError self w4
         | Some n \<Rightarrow>
           if n = 0 then
             (None, self, say (Line (''No records found for '' @ organism_name)) w4)
           else
       (let w5 = say (LineInt ''Found '' n '' records'') w4
        in case getitem search_results ''WebEnv'' of
           Inl e \<Rightarrow> search_failed taxid e self w5
         | Inr we \<Rightarrow>
       (let self1 = self\<lparr>webenv := Some we\<rparr>
        in case getitem search_results ''QueryKey'' of
           Inl e \<Rightarrow> search_failed taxid e self1 w5
         | Inr qk \<Rightarrow>
           (let self2 = self1\<lparr>query_key := Some qk\<rparr>;
                self3 = self2\<lparr>count := Some n\<rparr>
            in (Some n, self3, w5))))))))))"

text \<open>
  What \<open>fetch_records\<close> returns: the list \<open>[]\<close> of the missing-session branch, or a
  string (the fetched text, or \<open>""\<close> from the exception handler). The body is the
  guard followed by one \<open>try\<close> that catches every exception, so no call raises.
\<close>

datatype fetch_result = EmptyList | Text string

definition fetch_records :: "entrez \<Rightarrow> retriever \<Rightarrow> int \<Rightarrow> int \<Rightarrow> world \<Rightarrow> fetch_result \<times> world" where
  "fetch_records E self start max_records w =
     (if webenv self = None \<or> query_key self = None then
        (EmptyList, say (Line ''No search results to fetch. Run search_taxid() first.'') w)
      else
        (let batch_size = min max_records 500;
             w1 = request (EfetchNucleotide start batch_size (the (webenv self)) (the (query_key self))) w
         in case efetch_nucleotide E start batch_size (the (webenv self)) (the (query_key self)) of
              Inr records_text \<Rightarrow> (Text records_text, w1)
            | Inl e \<Rightarrow> (Text '''', say (LineExn ''Error fetching records: '' e) w1)))"

section \<open>The filtering loop of main (lines 161-169)\<close>

text \<open>
  \<^verbatim>\<open>
  filtered_records = []
  for record in records:
      if min_len is not None and len(record.seq) < min_len: continue
      if max_len is not None and len(record.seq) > max_len: continue
      filtered_records.append(record)
  \<close>
  The loop is a recursion over the parsed records with the list built so far as
  accumulator; \<open>None\<close> is the absent bound.
\<close>

fun filter_loop :: "int option \<Rightarrow> int option \<Rightarrow> seq_record list \<Rightarrow> seq_record list \<Rightarrow> seq_record list" where
  "filter_loop min_len max_len [] filtered_records = filtered_records"
| "filter_loop min_len max_len (r # records) filtered_records =
     (if min_len \<noteq> None \<and> seq_len r < the min_len then
        filter_loop min_len max_len records filtered_records
      else if max_len \<noteq> None \<and> seq_len r > the max_len then
        filter_loop min_len max_len records filtered_records
      else filter_loop min_len max_len records (filtered_records @ [r]))"

definition filter_records :: "int option \<Rightarrow> int option \<Rightarrow> seq_record list \<Rightarrow> seq_record list" where
  "filter_records min_len max_len records = filter_loop min_len max_len records []"

text \<open>The inclusive range of the specification, written from its words.\<close>

definition within_bounds :: "int option \<Rightarrow> int option \<Rightarrow> int \<Rightarrow> bool" where
  "within_bounds mn mx n =
     ((case mn of None \<Rightarrow> True | Some lo \<Rightarrow> n \<ge> lo) \<and>
      (case mx of None \<Rightarrow> True | Some hi \<Rightarrow> n \<le> hi))"

section \<open>List objects\<close>

text \<open>
  Python lists are objects reached through references, and two of the claims depend on
  that: a list that is appended to itself, and a list that is copied before it is
  sorted. A heap is the list of the list objects allocated so far; the address of an
  object is its position.
\<close>

definition new_list :: "'a list \<Rightarrow> 'a list list \<Rightarrow> addr \<times> 'a list list" where
  \<comment> \<open>allocate a list object with the given contents\<close>
  "new_list xs h = (length h, h @ [xs])"

definition list_append :: "addr \<Rightarrow> 'a \<Rightarrow> 'a list list \<Rightarrow> 'a list list" where
  \<comment> \<open>\<open>xs.append(v)\<close>, in place\<close>
  "list_append a v h = h[a := (h ! a) @ [v] ]"

definition list_copy :: "addr \<Rightarrow> 'a list list \<Rightarrow> addr \<times> 'a list list" where
  \<comment> \<open>\<open>list(xs)\<close>: a new object with the same elements\<close>
  "list_copy a h = new_list (h ! a) h"

definition py_sorted :: "('a \<Rightarrow> int) \<Rightarrow> addr \<Rightarrow> 'a list list \<Rightarrow> addr \<times> 'a list list" where
  \<comment> \<open>\<open>sorted(xs, key=f)\<close>: a new object; the built-in sort is ascending and stable,
      as is \<open>sort_key\<close>\<close>
  "py_sorted f a h = new_list (sort_key f (h ! a)) h"

section \<open>generate_csv\<close>

text \<open>
  \<open>pd.DataFrame(dict)\<close> takes the columns in the dictionary's order, refuses columns
  of different lengths, and numbers the rows from 0 (the index).
\<close>

record data_frame =
  df_index :: "int list"
  df_columns :: "(string \<times> cell list) list"

definition DataFrame :: "(string \<times> cell list) list \<Rightarrow> exn + data_frame" where
  "DataFrame data =
     (case data of
        [] \<Rightarrow> Inr \<lparr>df_index = [], df_columns = []\<rparr>
      | (name, col) # others \<Rightarrow>
          if list_all (\<lambda>c. length (snd c) = length col) others
          then Inr \<lparr>df_index = map int [0..<length col], df_columns = data\<rparr>
          else Inl ValueError)"

text \<open>
  \<open>df.to_csv(path)\<close> is called with its defaults, \<open>header=True\<close> and \<open>index=True\<close>:
  pandas writes the row index as the first field of every line, under an empty label.
\<close>

definition to_csv :: "data_frame \<Rightarrow> csv_file" where
  "to_csv df =
     \<lparr>csv_header = '''' # map fst (df_columns df),
      csv_rows = map (\<lambda>i. CInt i # map (\<lambda>c. snd c ! nat i) (df_columns df)) (df_index df)\<rparr>"

text \<open>
  \<^verbatim>\<open>
  for record in records:
      accession_numbers.append(record.id)
      seq_lengths.append(len(record.seq))
      descriptions.append(descriptions)
  \<close>
  The three names are the addresses of the three list objects.
\<close>

fun csv_loop :: "addr \<Rightarrow> addr \<Rightarrow> addr \<Rightarrow> seq_record list \<Rightarrow> cell list list \<Rightarrow> cell list list" where
  "csv_loop accession_numbers seq_lengths descriptions [] h = h"
| "csv_loop accession_numbers seq_lengths descriptions (r # records) h =
     csv_loop accession_numbers seq_lengths descriptions records
       (list_append descriptions (CList descriptions)
         (list_append seq_lengths (CInt (seq_len r))
           (list_append accession_numbers (CStr (rec_id r)) h)))"

definition attributes_frame :: "seq_record list \<Rightarrow> exn + data_frame" where
  \<comment> \<open>lines 84 to 97: the three lists and the frame built from them\<close>
  "attributes_frame records =
     (let (accession_numbers, h1) = new_list [] [];
          (seq_lengths, h2) = new_list [] h1;
          (descriptions, h3) = new_list [] h2;
          h4 = csv_loop accession_numbers seq_lengths descriptions records h3
      in DataFrame
           [(''accession number'', h4 ! accession_numbers),
            (''sequence length'', h4 ! seq_lengths),
            (''description'', h4 ! descriptions)])"

definition generate_csv :: "seq_record list \<Rightarrow> string \<Rightarrow> world \<Rightarrow> exn + world" where
  "generate_csv records taxid w =
     (case attributes_frame records of
        Inl e \<Rightarrow> Inl e
      | Inr df \<Rightarrow>
          (let path = ''taxid_'' @ taxid @ ''_attributes.csv'';
               w1 = write_file path (CsvFile (to_csv df)) w
           in Inr (say (Line (''Saved csv report to '' @ path @ ''.'')) w1)))"

text \<open>The table found in the attributes file after a call, if the call wrote one.\<close>

definition written_csv :: "seq_record list \<Rightarrow> string \<Rightarrow> world \<Rightarrow> csv_file option" where
  "written_csv records taxid w =
     (case generate_csv records taxid w of
        Inl e \<Rightarrow> None
      | Inr w' \<Rightarrow> (case files w' (''taxid_'' @ taxid @ ''_attributes.csv'') of
                     Some (CsvFile f) \<Rightarrow> Some f | _ \<Rightarrow> None))"

section \<open>generate_chart\<close>

text \<open>
  \<^verbatim>\<open>
  records = sorted(list(records), key=lambda r: len(r.seq))
  for record in records:
      accession_numbers.append(record.id)
      seq_lengths.append(len(record.seq))
  \<close>
  The argument is the address of the caller's list; the local name is rebound to the
  sorted list, a third object.
\<close>

fun chart_loop :: "seq_record list \<Rightarrow> string list \<Rightarrow> int list \<Rightarrow> string list \<times> int list" where
  "chart_loop [] accession_numbers seq_lengths = (accession_numbers, seq_lengths)"
| "chart_loop (r # records) accession_numbers seq_lengths =
     chart_loop records (accession_numbers @ [rec_id r]) (seq_lengths @ [seq_len r])"

definition generate_chart :: "addr \<Rightarrow> string \<Rightarrow> seq_record list list \<Rightarrow> world \<Rightarrow> seq_record list list \<times> world" where
  "generate_chart records taxid h w =
     (let (copied, h1) = list_copy records h;
          (records1, h2) = py_sorted seq_len copied h1;
          (accession_numbers, seq_lengths) = chart_loop (h2 ! records1) [] [];
          path = ''taxid_'' @ taxid @ ''_chart.png'';
          w1 = write_file path (ChartFile \<lparr>chart_x = accession_numbers, chart_y = seq_lengths\<rparr>) w
      in (h2, say (Line (''Saved chart to '' @ path @ ''.'')) w1))"

section \<open>main\<close>

text \<open>
  How a run ends: the early \<open>return\<close> of line 152 (the specification's NO_RESULTS), the
  end of the function (SAVED), or an exception nothing catches.
\<close>

datatype main_exit = NoResults | Saved | Uncaught exn

definition length_bound :: "string \<Rightarrow> int option" where
  \<comment> \<open>\<open>try: int(input(...).strip())  except ValueError: None\<close>\<close>
  "length_bound typed = (case py_int (py_strip typed) of None \<Rightarrow> None | Some n \<Rightarrow> Some n)"

text \<open>
  The credentials are literals in the script and only reach the remote service, so they
  are parameters here, like the service's answers, the GenBank parser of Biopython
  (\<open>Inl\<close> when it raises on malformed text) and the two lines the user types.
\<close>

definition main :: "entrez \<Rightarrow> (string \<Rightarrow> exn + seq_record list) \<Rightarrow> string \<Rightarrow> string \<Rightarrow> string \<Rightarrow> string \<Rightarrow> world \<Rightarrow> main_exit \<times> world" where
  "main E parse_genbank email_address key typed_min typed_max w =
     (let retriever0 = NCBIRetriever email_address key;
          taxid = ''9606'';
          min_len = length_bound typed_min;
          max_len = length_bound typed_max;
          (found, retriever1, w1) = search_taxid E taxid retriever0 w
      in if found = None \<or> found = Some 0 then
           (NoResults, say (Line ''No records found. Exiting.'') w1)
         else
           (let w2 = say (Line (CHR 0x0A # ''Fetching sample records...'')) w1;
                (sample_records, w3) = fetch_records E retriever1 0 5 w2
            in case sample_records of
                 EmptyList \<Rightarrow> (Uncaught TypeError, w3)
               | Text records_text \<Rightarrow>
             (case parse_genbank records_text of
                 Inl e \<Rightarrow> (Uncaught e, w3)
               | Inr records \<Rightarrow>
             (let filtered_records = filter_records min_len max_len records
              in case generate_csv filtered_records taxid w3 of
                 Inl e \<Rightarrow> (Uncaught e, w3)
               | Inr w4 \<Rightarrow>
             (let (h, w5) = generate_chart 0 taxid [filtered_records] w4;
                  output_file = ''taxid_'' @ taxid @ ''_sample.gb'';
                  w6 = write_file output_file (TextFile records_text) w5;
                  w7 = say (Line (''Saved sample records to '' @ output_file)) w6
              in (Saved, say (Line (CHR 0x0A # ''Note: This is just a basic retriever. You need to extend its functionality!'')) w7))))))"

section \<open>Notions of the specification\<close>

text \<open>
  A history of searches on one client, each against the service as it answers at that
  moment: the values returned, the client and the world afterwards.
\<close>

fun run_searches :: "(entrez \<times> string) list \<Rightarrow> retriever \<Rightarrow> world \<Rightarrow> int option list \<times> retriever \<times> world" where
  "run_searches [] self w = ([], self, w)"
| "run_searches ((E, taxid) # later) self w =
     (let (found, self1, w1) = search_taxid E taxid self w;
          (founds, self2, w2) = run_searches later self1 w1
      in (found # founds, self2, w2))"

text \<open>
  Blank and numeric input, from the specification's words. A typed line is blank when it
  holds only whitespace. It is numeric, in the widest sense, when what remains after
  trimming whitespace is an optional sign followed by digits and underscores that begin
  and end with a digit; every other line is non-numeric.
\<close>

definition blank :: "string \<Rightarrow> bool" where
  "blank typed = list_all py_isspace typed"

definition digits_text :: "string \<Rightarrow> bool" where
  "digits_text body =
     (body \<noteq> [] \<and> list_all (\<lambda>ch. py_isdigit ch \<or> ch = CHR ''_'') body
      \<and> py_isdigit (hd body) \<and> py_isdigit (last body))"

definition numeric_text :: "string \<Rightarrow> bool" where
  "numeric_text typed =
     (case py_strip typed of
        [] \<Rightarrow> False
      | c # cs \<Rightarrow> if c = CHR ''-'' \<or> c = CHR ''+'' then digits_text cs else digits_text (c # cs))"

section \<open>Sample inputs\<close>

text \<open>Concrete worlds, services and a parser, on which the theorems below are run.\<close>

definition fresh_world :: world where
  "fresh_world = \<lparr>console = [], calls = [], files = Map.empty\<rparr>"

definition human_taxonomy :: "string \<Rightarrow> exn + (string \<rightharpoonup> string) list" where
  "human_taxonomy t = Inr [ [''ScientificName'' \<mapsto> ''Homo sapiens''] ]"

definition no_matches_service :: entrez where
  \<comment> \<open>the search finds nothing\<close>
  "no_matches_service =
     \<lparr>efetch_taxonomy = human_taxonomy,
      esearch_nucleotide = (\<lambda>term. Inr [''Count'' \<mapsto> ''0'']),
      efetch_nucleotide = (\<lambda>start n we qk. Inr '''')\<rparr>"

definition failing_fetch_service :: entrez where
  \<comment> \<open>the search finds three records, the fetch raises\<close>
  "failing_fetch_service =
     \<lparr>efetch_taxonomy = human_taxonomy,
      esearch_nucleotide =
        (\<lambda>term. Inr [''Count'' \<mapsto> ''3'', ''WebEnv'' \<mapsto> ''MCID_1'', ''QueryKey'' \<mapsto> ''1'']),
      efetch_nucleotide = (\<lambda>start n we qk. Inl (RemoteError ''HTTP Error 500''))\<rparr>"

definition missing_key_service :: entrez where
  \<comment> \<open>the search answer carries a web environment but no query key\<close>
  "missing_key_service =
     \<lparr>efetch_taxonomy = human_taxonomy,
      esearch_nucleotide = (\<lambda>term. Inr [''Count'' \<mapsto> ''3'', ''WebEnv'' \<mapsto> ''MCID_1'']),
      efetch_nucleotide = (\<lambda>start n we qk. Inr ''LOCUS'')\<rparr>"

definition working_service :: entrez where
  "working_service =
     \<lparr>efetch_taxonomy = human_taxonomy,
      esearch_nucleotide =
        (\<lambda>term. Inr [''Count'' \<mapsto> ''3'', ''WebEnv'' \<mapsto> ''MCID_1'', ''QueryKey'' \<mapsto> ''1'']),
      efetch_nucleotide = (\<lambda>start n we qk. Inr ''LOCUS'')\<rparr>"

definition sample_parser :: "string \<Rightarrow> exn + seq_record list" where
  \<comment> \<open>no entries in an empty text, two entries in any other\<close>
  "sample_parser records_text =
     (if records_text = [] then Inr []
      else Inr [\<lparr>rec_id = ''AB1'', rec_seq = ''acgt'', rec_description = ''first''\<rparr>,
                \<lparr>rec_id = ''CD2'', rec_seq = ''ac'', rec_description = ''second''\<rparr>])"

section \<open>Filtering\<close>

lemma filter_loop_acc:
  "filter_loop mn mx rs acc = acc @ filter (\<lambda>r. within_bounds mn mx (seq_len r)) rs"
  by (induction rs arbitrary: acc)
     (auto simp: within_bounds_def split: option.splits)

text \<open>
  C2. For every record list and every optional pair of bounds the filtering loop keeps
  exactly the records whose sequence length lies in the inclusive range (an absent bound
  does not constrain), in their original order: the result is the order-preserving
  sublist selected by the range predicate.
\<close>

theorem filter_records_exact:
  "filter_records mn mx rs = filter (\<lambda>r. within_bounds mn mx (seq_len r)) rs"
  by (simp add: filter_records_def filter_loop_acc)

theorem filter_records_exact_witness:
  "filter_records (Some 100) None
     [\<lparr>rec_id = ''A'', rec_seq = replicate 50 CHR ''a'', rec_description = ''x''\<rparr>,
      \<lparr>rec_id = ''B'', rec_seq = replicate 150 CHR ''a'', rec_description = ''y''\<rparr>,
      \<lparr>rec_id = ''C'', rec_seq = replicate 300 CHR ''a'', rec_description = ''z''\<rparr>]
   = [\<lparr>rec_id = ''B'', rec_seq = replicate 150 CHR ''a'', rec_description = ''y''\<rparr>,
      \<lparr>rec_id = ''C'', rec_seq = replicate 300 CHR ''a'', rec_description = ''z''\<rparr>]"
  using filter_records_exact [of "Some 100" None]
  by (simp add: within_bounds_def seq_len_def)

section \<open>The chart\<close>

lemma chart_loop_maps:
  "chart_loop rs an sl = (an @ map rec_id rs, sl @ map seq_len rs)"
  by (induction rs arbitrary: an sl) simp_all

lemma generate_chart_unfold:
  "generate_chart a taxid h w =
     (h @ [h ! a, sort_key seq_len (h ! a)],
      say (Line (''Saved chart to '' @ ''taxid_'' @ taxid @ ''_chart.png'' @ ''.''))
        (write_file (''taxid_'' @ taxid @ ''_chart.png'')
           (ChartFile \<lparr>chart_x = map rec_id (sort_key seq_len (h ! a)),
                        chart_y = map seq_len (sort_key seq_len (h ! a))\<rparr>) w))"
  by (simp add: generate_chart_def list_copy_def py_sorted_def new_list_def chart_loop_maps
      nth_append)

text \<open>
  C3. Let \<open>plotted\<close> be the list the chart generator draws (the last object it
  allocates). The chart file holds the accession numbers and lengths of \<open>plotted\<close> in
  that order; the lengths are non-decreasing; for every length, the records of that
  length stand in \<open>plotted\<close> in the order they had in the caller's list (stability);
  \<open>plotted\<close> is a rearrangement of the caller's list; and every list object that existed
  before the call, the caller's list among them, is unchanged afterwards.
\<close>

theorem generate_chart_sorted_stable_copy:
  fixes h :: "seq_record list list" and a :: addr and taxid :: string and w :: world
  defines "h' \<equiv> fst (generate_chart a taxid h w)"
  defines "w' \<equiv> snd (generate_chart a taxid h w)"
  defines "plotted \<equiv> last h'"
  assumes "a < length h"
  shows "files w' (''taxid_'' @ taxid @ ''_chart.png'') =
           Some (ChartFile \<lparr>chart_x = map rec_id plotted, chart_y = map seq_len plotted\<rparr>)
       \<and> sorted (map seq_len plotted)
       \<and> (\<forall>k. filter (\<lambda>r. seq_len r = k) plotted = filter (\<lambda>r. seq_len r = k) (h ! a))
       \<and> mset plotted = mset (h ! a)
       \<and> take (length h) h' = h
       \<and> h' ! a = h ! a"
proof -
  have p: "plotted = sort_key seq_len (h ! a)"
    by (simp add: plotted_def h'_def generate_chart_unfold)
  have f: "files w' (''taxid_'' @ taxid @ ''_chart.png'') =
           Some (ChartFile \<lparr>chart_x = map rec_id plotted, chart_y = map seq_len plotted\<rparr>)"
    by (simp add: p w'_def generate_chart_unfold say_def write_file_def)
  have s: "sorted (map seq_len plotted)"
    by (simp add: p)
  have st: "\<forall>k. filter (\<lambda>r. seq_len r = k) plotted = filter (\<lambda>r. seq_len r = k) (h ! a)"
    by (simp add: p sort_key_stable)
  have m: "mset plotted = mset (h ! a)"
    by (simp add: p)
  have t: "take (length h) h' = h"
    by (simp add: h'_def generate_chart_unfold)
  have u: "h' ! a = h ! a"
    using assms(4) by (simp add: h'_def generate_chart_unfold nth_append)
  from f s st m t u show ?thesis by blast
qed

theorem generate_chart_sorted_stable_copy_witness:
  "(0::nat) < length
     [ [\<lparr>rec_id = ''A'', rec_seq = ''acgt'', rec_description = ''x''\<rparr>,
       \<lparr>rec_id = ''B'', rec_seq = ''ac'', rec_description = ''y''\<rparr>,
       \<lparr>rec_id = ''C'', rec_seq = ''tgca'', rec_description = ''z''\<rparr>] ]
   \<and> fst (generate_chart 0 ''9606''
     [ [\<lparr>rec_id = ''A'', rec_seq = ''acgt'', rec_description = ''x''\<rparr>,
       \<lparr>rec_id = ''B'', rec_seq = ''ac'', rec_description = ''y''\<rparr>,
       \<lparr>rec_id = ''C'', rec_seq = ''tgca'', rec_description = ''z''\<rparr>] ]
     fresh_world) ! 0
   = [\<lparr>rec_id = ''A'', rec_seq = ''acgt'', rec_description = ''x''\<rparr>,
       \<lparr>rec_id = ''B'', rec_seq = ''ac'', rec_description = ''y''\<rparr>,
       \<lparr>rec_id = ''C'', rec_seq = ''tgca'', rec_description = ''z''\<rparr>]
   \<and> files (snd (generate_chart 0 ''9606''
     [ [\<lparr>rec_id = ''A'', rec_seq = ''acgt'', rec_description = ''x''\<rparr>,
       \<lparr>rec_id = ''B'', rec_seq = ''ac'', rec_description = ''y''\<rparr>,
       \<lparr>rec_id = ''C'', rec_seq = ''tgca'', rec_description = ''z''\<rparr>] ]
     fresh_world)) ''taxid_9606_chart.png''
   = Some (ChartFile \<lparr>chart_x = [''B'', ''A'', ''C''], chart_y = [2, 4, 4]\<rparr>)"
  using generate_chart_sorted_stable_copy
    [of 0 "[ [\<lparr>rec_id = ''A'', rec_seq = ''acgt'', rec_description = ''x''\<rparr>,
       \<lparr>rec_id = ''B'', rec_seq = ''ac'', rec_description = ''y''\<rparr>,
       \<lparr>rec_id = ''C'', rec_seq = ''tgca'', rec_description = ''z''\<rparr>] ]" "''9606''"
       "fresh_world"]
  by (simp add: generate_chart_unfold seq_len_def)

section \<open>The table\<close>

lemma csv_loop_heap:
  "csv_loop 0 (Suc 0) (Suc (Suc 0)) rs [a, b, c] =
     [a @ map (\<lambda>r. CStr (rec_id r)) rs,
      b @ map (\<lambda>r. CInt (seq_len r)) rs,
      c @ replicate (length rs) (CList (Suc (Suc 0)))]"
  by (induction rs arbitrary: a b c) (simp_all add: list_append_def replicate_app_Cons_same)

lemma attributes_frame_eq:
  "attributes_frame rs =
     Inr \<lparr>df_index = map int [0..<length rs],
          df_columns =
            [(''accession number'', map (\<lambda>r. CStr (rec_id r)) rs),
             (''sequence length'', map (\<lambda>r. CInt (seq_len r)) rs),
             (''description'', replicate (length rs) (CList 2))]\<rparr>"
  by (simp add: attributes_frame_def new_list_def csv_loop_heap DataFrame_def Let_def
      numeral_2_eq_2)

lemma to_csv_attributes:
  "to_csv \<lparr>df_index = map int [0..<length rs],
          df_columns =
            [(''accession number'', map (\<lambda>r. CStr (rec_id r)) rs),
             (''sequence length'', map (\<lambda>r. CInt (seq_len r)) rs),
             (''description'', replicate (length rs) (CList 2))]\<rparr>
   = \<lparr>csv_header = ['''', ''accession number'', ''sequence length'', ''description''],
      csv_rows = map (\<lambda>i. [CInt (int i), CStr (rec_id (rs ! i)), CInt (seq_len (rs ! i)), CList 2])
                   [0..<length rs]\<rparr>"
  by (simp add: to_csv_def)

lemma generate_csv_eq:
  "generate_csv rs taxid w =
     Inr (say (Line (''Saved csv report to '' @ ''taxid_'' @ taxid @ ''_attributes.csv'' @ ''.''))
       (write_file (''taxid_'' @ taxid @ ''_attributes.csv'')
         (CsvFile
           \<lparr>csv_header = ['''', ''accession number'', ''sequence length'', ''description''],
            csv_rows = map (\<lambda>i. [CInt (int i), CStr (rec_id (rs ! i)), CInt (seq_len (rs ! i)), CList 2])
                   [0..<length rs]\<rparr>) w))"
  by (simp add: generate_csv_def attributes_frame_eq to_csv_attributes)

lemma written_csv_eq:
  "written_csv rs taxid w =
     Some \<lparr>csv_header = ['''', ''accession number'', ''sequence length'', ''description''],
            csv_rows = map (\<lambda>i. [CInt (int i), CStr (rec_id (rs ! i)), CInt (seq_len (rs ! i)), CList 2])
                   [0..<length rs]\<rparr>"
  by (simp add: written_csv_def generate_csv_eq say_def write_file_def)

text \<open>
  C1. Each row's description should be that record's own description string. On a
  single record whose description is \<open>Homo sapiens gene\<close> the table generator writes,
  in the description field, a reference to the list \<open>descriptions\<close> itself (the object
  at address 2, which line 91 appends to itself), not the record's string.
\<close>

theorem csv_description_is_list_reference:
  "written_csv [\<lparr>rec_id = ''AB1'', rec_seq = ''acgt'', rec_description = ''Homo sapiens gene''\<rparr>]
      ''9606'' fresh_world =
     Some \<lparr>csv_header = ['''', ''accession number'', ''sequence length'', ''description''],
           csv_rows = [ [CInt 0, CStr ''AB1'', CInt 4, CList 2] ]\<rparr>
   \<and> CList 2 \<noteq> CStr ''Homo sapiens gene''"
  by (simp add: written_csv_def generate_csv_def attributes_frame_def new_list_def
      DataFrame_def to_csv_def write_file_def say_def list_append_def seq_len_def)

text \<open>
  C4, as stated: the file has exactly the three columns accession number, sequence
  length, description. It fails already on the empty record set: the header line has
  four fields, the first being the empty label of the row index that \<open>to_csv\<close> writes by
  default.
\<close>

theorem csv_three_columns_counterexample:
  "written_csv [] ''9606'' fresh_world =
     Some \<lparr>csv_header = ['''', ''accession number'', ''sequence length'', ''description''],
           csv_rows = []\<rparr>
   \<and> length ['''', ''accession number'', ''sequence length'', ''description''] \<noteq> (3::nat)"
  by (simp add: written_csv_def generate_csv_def attributes_frame_def new_list_def
      DataFrame_def to_csv_def write_file_def say_def)

text \<open>
  C4, amended. For every record set the table generator succeeds and writes a file whose
  header is the unlabelled row-index column followed by exactly the three columns
  accession number, sequence length, description, with exactly one data line per record,
  in the records' order: line \<open>i\<close> has four fields and begins with the row number \<open>i\<close>,
  the accession number of record \<open>i\<close> and its sequence length.
\<close>

theorem csv_index_and_three_columns:
  "\<exists>f. written_csv rs taxid w = Some f
     \<and> csv_header f = ['''', ''accession number'', ''sequence length'', ''description'']
     \<and> length (csv_rows f) = length rs
     \<and> map (take 3) (csv_rows f) =
         map (\<lambda>i. [CInt (int i), CStr (rec_id (rs ! i)), CInt (seq_len (rs ! i))]) [0..<length rs]
     \<and> map length (csv_rows f) = replicate (length rs) 4"
  by (simp add: written_csv_eq map_replicate_const comp_def)

section \<open>The search\<close>

lemma search_taxid_files:
  "files (snd (snd (search_taxid E t r w))) = files w"
  by (simp add: search_taxid_def search_failed_def Let_def say_def request_def
      split: sum.splits option.splits)

lemma search_taxid_Some:
  assumes "search_taxid E t r w = (Some n, r', w')"
  shows "n \<noteq> 0 \<and> webenv r' \<noteq> None \<and> query_key r' \<noteq> None \<and> count r' = Some n"
  using assms
  by (auto simp: search_taxid_def search_failed_def Let_def
      split: sum.splits option.splits if_splits)

lemma search_taxid_None:
  assumes "search_taxid E t r w = (None, r', w')"
  shows "query_key r' = query_key r \<and> count r' = count r
     \<and> (webenv r' = webenv r \<or>
         (\<exists>d. esearch_nucleotide E (''txid'' @ t @ ''[Organism]'') = Inr d
              \<and> d ''QueryKey'' = None \<and> d ''WebEnv'' \<noteq> None \<and> webenv r' = d ''WebEnv''))"
  using assms
  by (auto simp: search_taxid_def search_failed_def Let_def getitem_def
      split: sum.splits option.splits if_splits)

lemma search_taxid_zero:
  assumes "efetch_taxonomy E t = Inr (rec0 # more_records)"
    and "rec0 ''ScientificName'' = Some organism"
    and "esearch_nucleotide E (''txid'' @ t @ ''[Organism]'') = Inr d"
    and "d ''Count'' = Some c" and "py_int c = Some 0"
  shows "search_taxid E t r w =
     (None, r, say (Line (''No records found for '' @ organism))
        (request (EsearchNucleotide (''txid'' @ t @ ''[Organism]''))
          (say (Line (''Organism: '' @ organism @ '' (TaxID: '' @ t @ '')''))
            (request (EfetchTaxonomy t)
              (say (Line (''Searching for records with taxID: '' @ t)) w)))))"
  using assms
  by (simp add: search_taxid_def Let_def getitem_def first_item_def)

lemma search_taxid_raises:
  assumes "efetch_taxonomy E t = Inl e \<or> esearch_nucleotide E (''txid'' @ t @ ''[Organism]'') = Inl e"
  shows "fst (search_taxid E t r w) = None"
  using assms
  by (auto simp: search_taxid_def search_failed_def Let_def
      split: sum.splits option.splits if_splits)

section \<open>The fetch\<close>

lemma fetch_records_raises:
  assumes "webenv r = Some we" and "query_key r = Some qk"
    and "efetch_nucleotide E start (min n 500) we qk = Inl x"
  shows "fetch_records E r start n w =
     (Text '''', say (LineExn ''Error fetching records: '' x)
                    (request (EfetchNucleotide start (min n 500) we qk) w))"
  using assms by (simp add: fetch_records_def Let_def)

text \<open>
  C5. When a session is held, the fetch sends exactly one request, and the batch size
  in it is the caller's \<open>max_records\<close> when that is at most 500 and 500 otherwise; the
  text returned is the service's answer to that capped request (or the empty string
  when the call raises).
\<close>

theorem fetch_batch_size_capped:
  assumes "webenv self = Some we" and "query_key self = Some qk"
  shows "calls (snd (fetch_records E self start max_records w)) =
           calls w @ [EfetchNucleotide start (if max_records \<le> 500 then max_records else 500) we qk]
       \<and> fst (fetch_records E self start max_records w) =
           (case efetch_nucleotide E start (if max_records \<le> 500 then max_records else 500) we qk of
              Inr records_text \<Rightarrow> Text records_text
            | Inl e \<Rightarrow> Text '''')"
  using assms
  by (simp add: fetch_records_def Let_def request_def say_def min_def split: sum.splits)

theorem fetch_batch_size_capped_witness:
  "calls (snd (fetch_records working_service
       \<lparr>email = ''a@b.c'', api_key = ''key'', webenv = Some ''MCID_1'',
        query_key = Some ''1'', count = Some 3\<rparr> 0 1000 fresh_world)) =
     [EfetchNucleotide 0 500 ''MCID_1'' ''1'']
   \<and> calls (snd (fetch_records working_service
       \<lparr>email = ''a@b.c'', api_key = ''key'', webenv = Some ''MCID_1'',
        query_key = Some ''1'', count = Some 3\<rparr> 0 5 fresh_world)) =
     [EfetchNucleotide 0 5 ''MCID_1'' ''1'']"
  using fetch_batch_size_capped [of "\<lparr>email = ''a@b.c'', api_key = ''key'', webenv = Some ''MCID_1'',
        query_key = Some ''1'', count = Some 3\<rparr>" "''MCID_1''" "''1''" working_service 0 1000 fresh_world]
    fetch_batch_size_capped [of "\<lparr>email = ''a@b.c'', api_key = ''key'', webenv = Some ''MCID_1'',
        query_key = Some ''1'', count = Some 3\<rparr>" "''MCID_1''" "''1''" working_service 0 5 fresh_world]
  by (simp add: fresh_world_def)

text \<open>
  C6, as stated: a fetch before any search fails with a precondition error. On a newly
  constructed client the call does not fail: it returns normally, its value is the empty
  list, and the line it prints is the one below.
\<close>

theorem fetch_before_search_counterexample:
  "fetch_records working_service (NCBIRetriever ''a@b.c'' ''key'') 0 10 fresh_world =
     (EmptyList,
      \<lparr>console = [Line ''No search results to fetch. Run search_taxid() first.''],
       calls = [], files = files fresh_world\<rparr>)"
  by (simp add: fetch_records_def NCBIRetriever_def fresh_world_def say_def)

text \<open>
  C6, amended. When the client lacks the web environment token or the query key, the
  fetch raises nothing: it prints \<open>No search results to fetch. Run search_taxid() first.\<close>,
  returns the empty list, sends no request to the remote service and writes no file.
\<close>

theorem fetch_without_session:
  assumes "webenv self = None \<or> query_key self = None"
  shows "fetch_records E self start max_records w =
           (EmptyList, say (Line ''No search results to fetch. Run search_taxid() first.'') w)
       \<and> calls (snd (fetch_records E self start max_records w)) = calls w
       \<and> files (snd (fetch_records E self start max_records w)) = files w"
  using assms by (auto simp: fetch_records_def say_def)

theorem fetch_without_session_witness:
  "webenv (NCBIRetriever ''a@b.c'' ''key'') = None
   \<and> fst (fetch_records working_service (NCBIRetriever ''a@b.c'' ''key'') 0 5 fresh_world) = EmptyList
   \<and> calls (snd (fetch_records working_service (NCBIRetriever ''a@b.c'' ''key'') 0 5 fresh_world)) = []"
  using fetch_without_session [of "NCBIRetriever ''a@b.c'' ''key''" working_service 0 5 fresh_world]
  by (simp add: NCBIRetriever_def fresh_world_def say_def)

section \<open>Runs of main\<close>

lemma main_early:
  assumes "fst (search_taxid E ''9606'' (NCBIRetriever em k) w) = None"
  shows "main E P em k a b w =
     (NoResults, say (Line ''No records found. Exiting.'')
        (snd (snd (search_taxid E ''9606'' (NCBIRetriever em k) w))))"
proof -
  obtain found r1 w1 where s: "search_taxid E ''9606'' (NCBIRetriever em k) w = (found, r1, w1)"
    by (cases "search_taxid E ''9606'' (NCBIRetriever em k) w") auto
  with assms have "found = None" by simp
  with s show ?thesis by (simp add: main_def)
qed

lemma main_saved:
  assumes s: "search_taxid E ''9606'' (NCBIRetriever em k) w = (Some n, r1, w1)"
    and f: "fetch_records E r1 0 5 (say (Line (CHR 0x0A # ''Fetching sample records...'')) w1) = (Text txt, w3)"
    and p: "P txt = Inr records"
  shows "main E P em k a b w =
    (Saved,
     say (Line (CHR 0x0A # ''Note: This is just a basic retriever. You need to extend its functionality!''))
      (say (Line ''Saved sample records to taxid_9606_sample.gb'')
        (write_file ''taxid_9606_sample.gb'' (TextFile txt)
          (snd (generate_chart 0 ''9606'' [filter_records (length_bound a) (length_bound b) records]
            (say (Line ''Saved csv report to taxid_9606_attributes.csv.'')
               (write_file ''taxid_9606_attributes.csv''
                 (CsvFile (the (written_csv (filter_records (length_bound a) (length_bound b) records) ''9606'' w3))) w3)))))))"
proof -
  have n: "n \<noteq> 0" using search_taxid_Some [OF s] by simp
  show ?thesis
    using n by (simp add: main_def s f p generate_csv_eq written_csv_eq Let_def case_prod_beta)
qed

text \<open>
  C7. Whenever the taxonomy lookup or the search call raises, or the search answers with
  a count that reads as zero, or \<open>search_taxid\<close> returns \<open>None\<close> for any other
  reason, the run ends at the early return: the files are exactly those that existed
  before (none of the three outputs is written), no request is sent beyond those of the
  search, and the last line printed is \<open>No records found. Exiting.\<close>
\<close>

theorem main_no_results:
  assumes "efetch_taxonomy E ''9606'' = Inl x
         \<or> esearch_nucleotide E ''txid9606[Organism]'' = Inl x
         \<or> (efetch_taxonomy E ''9606'' = Inr (rec0 # more_records)
             \<and> rec0 ''ScientificName'' = Some organism
             \<and> esearch_nucleotide E ''txid9606[Organism]'' = Inr d
             \<and> d ''Count'' = Some c \<and> py_int c = Some 0)
         \<or> fst (search_taxid E ''9606'' (NCBIRetriever em k) w) = None"
  shows "fst (main E P em k a b w) = NoResults
       \<and> files (snd (main E P em k a b w)) = files w
       \<and> calls (snd (main E P em k a b w)) =
           calls (snd (snd (search_taxid E ''9606'' (NCBIRetriever em k) w)))
       \<and> last (console (snd (main E P em k a b w))) = Line ''No records found. Exiting.''"
proof -
  have none: "fst (search_taxid E ''9606'' (NCBIRetriever em k) w) = None"
    using assms search_taxid_raises [of E "''9606''" x "NCBIRetriever em k" w]
      search_taxid_zero [of E "''9606''" rec0 more_records organism d c "NCBIRetriever em k" w]
    by auto
  show ?thesis
    by (simp add: main_early [OF none] say_def search_taxid_files)
qed

lemma py_int_zero: "py_int ''0'' = Some 0"
  by (simp add: py_int_def py_strip_def py_isspace_def py_isdigit_def digit_value_def)

theorem main_no_results_witness:
  "esearch_nucleotide no_matches_service ''txid9606[Organism]'' = Inr [''Count'' \<mapsto> ''0'']
   \<and> py_int ''0'' = Some 0
   \<and> fst (main no_matches_service sample_parser ''a@b.c'' ''key'' '''' '''' fresh_world) = NoResults
   \<and> files (snd (main no_matches_service sample_parser ''a@b.c'' ''key'' '''' '''' fresh_world))
       = Map.empty"
proof -
  have t: "efetch_taxonomy no_matches_service ''9606'' = Inr ([''ScientificName'' \<mapsto> ''Homo sapiens''] # [])"
    by (simp add: no_matches_service_def human_taxonomy_def)
  have n: "[''ScientificName'' \<mapsto> ''Homo sapiens''] ''ScientificName'' = Some ''Homo sapiens''"
    by simp
  have s: "esearch_nucleotide no_matches_service ''txid9606[Organism]'' = Inr [''Count'' \<mapsto> ''0'']"
    by (simp add: no_matches_service_def)
  have c: "[''Count'' \<mapsto> ''0''] ''Count'' = Some ''0''"
    by simp
  have h: "efetch_taxonomy no_matches_service ''9606'' = Inr ([''ScientificName'' \<mapsto> ''Homo sapiens''] # [])
           \<and> [''ScientificName'' \<mapsto> ''Homo sapiens''] ''ScientificName'' = Some ''Homo sapiens''
           \<and> esearch_nucleotide no_matches_service ''txid9606[Organism]'' = Inr [''Count'' \<mapsto> ''0'']
           \<and> [''Count'' \<mapsto> ''0''] ''Count'' = Some ''0'' \<and> py_int ''0'' = Some 0"
    using t n s c py_int_zero by blast
  show ?thesis
    using main_no_results [where E = no_matches_service and P = sample_parser
        and w = fresh_world and em = "''a@b.c''" and k = "''key''" and a = "''''" and b = "''''",
        OF disjI2 [OF disjI2 [OF disjI1 [OF h] ] ] ] s py_int_zero
    by (simp add: fresh_world_def)
qed

text \<open>
  C10. After a successful search, if the fetch call raises, \<open>fetch_records\<close> returns the
  empty string, a value of another type than the empty list it returns when no session is
  held. Given that the GenBank parser finds no entry in an empty text, the run then ends
  normally and has written the three files: a table with the header line and no data
  line, a chart with no point, and an empty sample file.
\<close>

theorem fetch_error_run_completes:
  assumes s: "search_taxid E ''9606'' (NCBIRetriever em k) w = (Some n, r1, w1)"
    and we: "webenv r1 = Some we" and qk: "query_key r1 = Some qk"
    and x: "efetch_nucleotide E 0 5 we qk = Inl x"
    and p: "P '''' = Inr []"
  shows "fst (fetch_records E r1 0 5 w2) = Text ''''
       \<and> fst (fetch_records E (NCBIRetriever em k) 0 5 w2) = EmptyList
       \<and> Text '''' \<noteq> EmptyList
       \<and> fst (main E P em k a b w) = Saved
       \<and> files (snd (main E P em k a b w)) =
           (files w)(''taxid_9606_attributes.csv'' \<mapsto>
                       CsvFile \<lparr>csv_header = ['''', ''accession number'', ''sequence length'', ''description''],
                                csv_rows = []\<rparr>,
                     ''taxid_9606_chart.png'' \<mapsto> ChartFile \<lparr>chart_x = [], chart_y = []\<rparr>,
                     ''taxid_9606_sample.gb'' \<mapsto> TextFile '''')"
proof -
  have g: "\<And>v. fetch_records E r1 0 5 v =
     (Text '''', say (LineExn ''Error fetching records: '' x)
                    (request (EfetchNucleotide 0 5 we qk) v))"
    using fetch_records_raises [OF we qk, of E 0 5 x] x by simp
  note f = g [of "say (Line (CHR 0x0A # ''Fetching sample records...'')) w1"]
  have e: "fst (fetch_records E (NCBIRetriever em k) 0 5 w2) = EmptyList"
    by (simp add: fetch_records_def NCBIRetriever_def)
  have fl: "filter_records (length_bound a) (length_bound b) [] = []"
    by (simp add: filter_records_def)
  have m: "fst (main E P em k a b w) = Saved"
    by (simp add: main_saved [where P = P, OF s f p])
  have w1: "files w1 = files w"
    using search_taxid_files [of E "''9606''" "NCBIRetriever em k" w] s by simp
  have fs: "files (snd (main E P em k a b w)) =
           (files w)(''taxid_9606_attributes.csv'' \<mapsto>
                       CsvFile \<lparr>csv_header = ['''', ''accession number'', ''sequence length'', ''description''],
                                csv_rows = []\<rparr>,
                     ''taxid_9606_chart.png'' \<mapsto> ChartFile \<lparr>chart_x = [], chart_y = []\<rparr>,
                     ''taxid_9606_sample.gb'' \<mapsto> TextFile '''')"
    by (simp add: main_saved [where P = P, OF s f p] fl written_csv_eq generate_chart_unfold say_def
        write_file_def request_def w1)
  from g [of w2] e m fs show ?thesis by simp
qed

lemma search_failing_fetch_service:
  "search_taxid failing_fetch_service ''9606'' (NCBIRetriever ''a@b.c'' ''key'') fresh_world =
     (Some 3,
      \<lparr>email = ''a@b.c'', api_key = ''key'', webenv = Some ''MCID_1'',
       query_key = Some ''1'', count = Some 3\<rparr>,
      \<lparr>console = [Line ''Searching for records with taxID: 9606'',
                  Line ''Organism: Homo sapiens (TaxID: 9606)'',
                  LineInt ''Found '' 3 '' records''],
       calls = [EfetchTaxonomy ''9606'', EsearchNucleotide ''txid9606[Organism]''],
       files = Map.empty\<rparr>)"
  by (simp add: search_taxid_def failing_fetch_service_def human_taxonomy_def NCBIRetriever_def
      fresh_world_def Let_def getitem_def first_item_def py_int_def py_strip_def py_isspace_def
      py_isdigit_def digit_value_def say_def request_def)

theorem fetch_error_run_completes_witness:
  "sample_parser '''' = Inr []
   \<and> efetch_nucleotide failing_fetch_service 0 5 ''MCID_1'' ''1'' = Inl (RemoteError ''HTTP Error 500'')
   \<and> fst (main failing_fetch_service sample_parser ''a@b.c'' ''key'' ''10'' '''' fresh_world) = Saved
   \<and> files (snd (main failing_fetch_service sample_parser ''a@b.c'' ''key'' ''10'' '''' fresh_world))
        ''taxid_9606_sample.gb'' = Some (TextFile '''')
   \<and> files (snd (main failing_fetch_service sample_parser ''a@b.c'' ''key'' ''10'' '''' fresh_world))
        ''taxid_9606_chart.png'' = Some (ChartFile \<lparr>chart_x = [], chart_y = []\<rparr>)
   \<and> files (snd (main failing_fetch_service sample_parser ''a@b.c'' ''key'' ''10'' '''' fresh_world))
        ''taxid_9606_attributes.csv'' =
        Some (CsvFile \<lparr>csv_header = ['''', ''accession number'', ''sequence length'', ''description''],
                       csv_rows = []\<rparr>)"
proof -
  have p: "sample_parser '''' = Inr []" by (simp add: sample_parser_def)
  have x: "efetch_nucleotide failing_fetch_service 0 5 ''MCID_1'' ''1'' = Inl (RemoteError ''HTTP Error 500'')"
    by (simp add: failing_fetch_service_def)
  show ?thesis
    using fetch_error_run_completes [where P = sample_parser and E = failing_fetch_service
        and ?w2.0 = fresh_world and a = "''10''" and b = "''''",
        OF search_failing_fetch_service _ _ x p] p x
    by (simp add: fresh_world_def)
qed

section \<open>The length bounds\<close>

lemma int_digits_Some:
  "int_digits prev acc body = Some v \<Longrightarrow>
     list_all (\<lambda>ch. py_isdigit ch \<or> ch = CHR ''_'') body
     \<and> (body \<noteq> [] \<longrightarrow> py_isdigit (last body))
     \<and> (\<not> prev \<longrightarrow> body \<noteq> [] \<and> py_isdigit (hd body))"
proof (induction body arbitrary: prev acc)
  case Nil
  then show ?case by (simp split: if_splits)
next
  case (Cons c cs)
  show ?case
  proof (cases "py_isdigit c")
    case True
    with Cons.prems have "int_digits True (10 * acc + digit_value c) cs = Some v" by simp
    from Cons.IH [OF this] True show ?thesis by simp
  next
    case False
    with Cons.prems have u: "c = CHR ''_''" and p: prev and r: "int_digits False acc cs = Some v"
      by (simp_all split: if_splits)
    from Cons.IH [OF r] u p show ?thesis by simp
  qed
qed

lemma int_digits_digits_text: "int_digits False acc body = Some v \<Longrightarrow> digits_text body"
  using int_digits_Some [of False acc body v] by (simp add: digits_text_def)

lemma py_strip_idem: "py_strip (py_strip s) = py_strip s"
proof -
  define t where "t = dropWhile py_isspace s"
  have t: "t = [] \<or> \<not> py_isspace (hd t)"
    unfolding t_def by (metis hd_dropWhile)
  define u where "u = rev (dropWhile py_isspace (rev t))"
  have "dropWhile py_isspace u = u"
  proof (cases "u = []")
    case True then show ?thesis by simp
  next
    case False
    then have ne: "dropWhile py_isspace (rev t) \<noteq> []" by (simp add: u_def)
    then have tne: "t \<noteq> []" by auto
    have "hd u = last (dropWhile py_isspace (rev t))"
      using ne by (simp add: u_def hd_rev)
    also have "\<dots> = last (rev t)"
      using ne by (metis append_Nil2 last_appendR takeWhile_dropWhile_id)
    also have "\<dots> = hd t" using tne by (simp add: last_rev)
    finally have "\<not> py_isspace (hd u)" using t tne by simp
    with False show ?thesis by (cases u) simp_all
  qed
  then show ?thesis
    by (simp add: py_strip_def t_def [symmetric] u_def [symmetric])
       (simp add: u_def)
qed

lemma py_int_Some_numeric: "py_int s = Some v \<Longrightarrow> numeric_text s"
  by (auto simp del: int_digits.simps simp add: py_int_def numeric_text_def
      split: list.splits if_splits dest: int_digits_digits_text)

lemma blank_not_numeric: "blank typed \<Longrightarrow> \<not> numeric_text typed"
proof -
  assume "blank typed"
  then have d: "dropWhile py_isspace typed = []"
    by (simp add: blank_def list_all_iff dropWhile_eq_Nil_conv)
  have "py_strip typed = []"
    by (simp only: py_strip_def d rev.simps dropWhile.simps)
  then show ?thesis
    by (simp add: numeric_text_def)
qed

lemma length_bound_None: "\<not> numeric_text typed \<Longrightarrow> length_bound typed = None"
proof -
  assume n: "\<not> numeric_text typed"
  have "numeric_text (py_strip typed) = numeric_text typed"
    by (simp add: numeric_text_def py_strip_idem)
  with n have "\<not> numeric_text (py_strip typed)" by simp
  then have "py_int (py_strip typed) = None"
    using py_int_Some_numeric [of "py_strip typed"] by (cases "py_int (py_strip typed)") auto
  then show ?thesis by (simp add: length_bound_def)
qed

lemma length_bound_numeric_example:
  "length_bound '' 1_000 '' = Some 1000 \<and> length_bound ''-5'' = Some (- 5)"
  by (simp add: length_bound_def py_int_def py_strip_def py_isspace_def py_isdigit_def
      digit_value_def)

lemma filter_records_unbounded: "filter_records None None rs = rs"
  by (simp add: filter_records_def filter_loop_acc within_bounds_def)

lemma main_bounds_only:
  "length_bound a = length_bound a' \<Longrightarrow> length_bound b = length_bound b' \<Longrightarrow>
   main E P em k a b w = main E P em k a' b' w"
  by (simp add: main_def)

text \<open>
  C8. A typed bound that is blank, or that is not numeric, gives no bound on that side
  and nothing is reported: when this holds of both typed lines, both bounds are absent,
  filtering returns the full parsed list, and the whole run (its exit, its printed lines,
  its requests and its files) is the run on two empty lines.
\<close>

theorem unparsable_bounds_mean_no_bounds:
  assumes "blank typed_min \<or> \<not> numeric_text typed_min"
    and "blank typed_max \<or> \<not> numeric_text typed_max"
  shows "length_bound typed_min = None \<and> length_bound typed_max = None
       \<and> filter_records (length_bound typed_min) (length_bound typed_max) records = records
       \<and> main E P em k typed_min typed_max w = main E P em k '''' '''' w"
proof -
  have a: "length_bound typed_min = None"
    using assms(1) blank_not_numeric length_bound_None by blast
  have b: "length_bound typed_max = None"
    using assms(2) blank_not_numeric length_bound_None by blast
  have e: "length_bound '''' = None"
    by (simp add: length_bound_def py_int_def py_strip_def)
  have m: "main E P em k typed_min typed_max w = main E P em k '''' '''' w"
    by (rule main_bounds_only) (simp_all add: a b e)
  from a b m show ?thesis by (simp add: filter_records_unbounded)
qed

theorem unparsable_bounds_mean_no_bounds_witness:
  "blank [CHR '' '', CHR 0x09] \<and> \<not> numeric_text ''12abc''
   \<and> length_bound [CHR '' '', CHR 0x09] = None \<and> length_bound ''12abc'' = None
   \<and> filter_records (length_bound [CHR '' '', CHR 0x09]) (length_bound ''12abc'')
        [\<lparr>rec_id = ''AB1'', rec_seq = ''acgt'', rec_description = ''first''\<rparr>,
         \<lparr>rec_id = ''CD2'', rec_seq = ''ac'', rec_description = ''second''\<rparr>]
      = [\<lparr>rec_id = ''AB1'', rec_seq = ''acgt'', rec_description = ''first''\<rparr>,
         \<lparr>rec_id = ''CD2'', rec_seq = ''ac'', rec_description = ''second''\<rparr>]"
proof -
  have b: "blank [CHR '' '', CHR 0x09]"
    by (simp add: blank_def py_isspace_def)
  have n: "\<not> numeric_text ''12abc''"
    by (simp add: numeric_text_def digits_text_def py_strip_def py_isspace_def py_isdigit_def)
  show ?thesis
    using unparsable_bounds_mean_no_bounds [OF disjI1 [OF b] disjI2 [OF n] ] b n
    by (simp add: filter_records_unbounded)
qed

section \<open>Session state\<close>

lemma run_searches_invariant:
  "run_searches history r w = (founds, self, w') \<Longrightarrow>
     (query_key self \<noteq> None \<longleftrightarrow> query_key r \<noteq> None \<or> (\<exists>n. Some n \<in> set founds))
   \<and> (count self \<noteq> None \<longleftrightarrow> count r \<noteq> None \<or> (\<exists>n. Some n \<in> set founds))
   \<and> (webenv r \<noteq> None \<or> (\<exists>n. Some n \<in> set founds) \<longrightarrow> webenv self \<noteq> None)
   \<and> (Some 0 \<notin> set founds)"
proof (induction history arbitrary: r w founds self w')
  case Nil
  then show ?case by auto
next
  case (Cons q later)
  obtain E t where q: "q = (E, t)" by (cases q)
  obtain found r1 w1 where s: "search_taxid E t r w = (found, r1, w1)"
    by (cases "search_taxid E t r w") auto
  obtain fs r2 w2 where l: "run_searches later r1 w1 = (fs, r2, w2)"
    by (cases "run_searches later r1 w1") auto
  from Cons.prems q s l have eq: "founds = found # fs" "self = r2"
    by simp_all
  note ih = Cons.IH [OF l]
  show ?case
  proof (cases found)
    case None
    with s have "query_key r1 = query_key r" "count r1 = count r"
      "webenv r \<noteq> None \<longrightarrow> webenv r1 \<noteq> None"
      using search_taxid_None [of E t r w r1 w1] by auto
    with ih None eq show ?thesis by auto
  next
    case (Some n)
    with s have "n \<noteq> 0" "webenv r1 \<noteq> None" "query_key r1 \<noteq> None" "count r1 \<noteq> None"
      using search_taxid_Some [of E t r w n r1 w1] by auto
    with ih Some eq show ?thesis by auto
  qed
qed

text \<open>
  C9, as stated: a search that raises returns the sentinel before storing any session
  attribute. With a search answer that carries a count and a web environment token but
  no query key, the search on a new client raises \<open>KeyError\<close> at line 45, after line 44
  has stored the token: it returns \<open>None\<close> and the client holds \<open>webenv\<close>.
\<close>

theorem search_error_stores_webenv_counterexample:
  "search_taxid missing_key_service ''9606'' (NCBIRetriever ''a@b.c'' ''key'') fresh_world =
     (None,
      \<lparr>email = ''a@b.c'', api_key = ''key'', webenv = Some ''MCID_1'',
       query_key = None, count = None\<rparr>,
      \<lparr>console = [Line ''Searching for records with taxID: 9606'',
                  Line ''Organism: Homo sapiens (TaxID: 9606)'',
                  LineInt ''Found '' 3 '' records'',
                  LineExn ''Error searching TaxID 9606: '' (KeyError ''QueryKey'')],
       calls = [EfetchTaxonomy ''9606'', EsearchNucleotide ''txid9606[Organism]''],
       files = files fresh_world\<rparr>)"
  by (simp add: search_taxid_def search_failed_def missing_key_service_def human_taxonomy_def
      NCBIRetriever_def fresh_world_def Let_def getitem_def first_item_def py_int_def
      py_strip_def py_isspace_def py_isdigit_def digit_value_def say_def request_def)

text \<open>
  C9, amended. After any history of searches on a newly constructed client, the client
  holds the full session state (web environment token, query key and stored count) if and
  only if one of the searches returned a count, and no search returns the count zero. As
  long as every search has returned the sentinel, the client has neither query key nor
  stored count, and a fetch is rejected by the precondition check: it returns the empty
  list and sends no request. On any client, a search that returns the sentinel (a zero
  count or an error) leaves the query key and the stored count as they were; nothing is
  said of the web environment token.
\<close>

theorem session_state_after_searches:
  assumes "run_searches history (NCBIRetriever em k) w = (founds, self, w')"
  shows "((webenv self \<noteq> None \<and> query_key self \<noteq> None \<and> count self \<noteq> None)
            \<longleftrightarrow> (\<exists>n. Some n \<in> set founds))
       \<and> Some 0 \<notin> set founds
       \<and> ((\<forall>f \<in> set founds. f = None) \<longrightarrow>
             query_key self = None \<and> count self = None
             \<and> fst (fetch_records E self start max_records v) = EmptyList
             \<and> calls (snd (fetch_records E self start max_records v)) = calls v)
       \<and> (fst (search_taxid E t r v) = None \<longrightarrow>
             query_key (fst (snd (search_taxid E t r v))) = query_key r
             \<and> count (fst (snd (search_taxid E t r v))) = count r)"
proof -
  note inv = run_searches_invariant [OF assms]
  have a: "(webenv self \<noteq> None \<and> query_key self \<noteq> None \<and> count self \<noteq> None)
            \<longleftrightarrow> (\<exists>n. Some n \<in> set founds)"
    using inv by (auto simp: NCBIRetriever_def)
  have b: "Some 0 \<notin> set founds" using inv by simp
  have c: "(\<forall>f \<in> set founds. f = None) \<longrightarrow>
             query_key self = None \<and> count self = None
             \<and> fst (fetch_records E self start max_records v) = EmptyList
             \<and> calls (snd (fetch_records E self start max_records v)) = calls v"
  proof
    assume n: "\<forall>f \<in> set founds. f = None"
    then have "\<not> (\<exists>n. Some n \<in> set founds)" by auto
    with inv have q: "query_key self = None" and k: "count self = None"
      by (auto simp: NCBIRetriever_def)
    from q k show "query_key self = None \<and> count self = None
             \<and> fst (fetch_records E self start max_records v) = EmptyList
             \<and> calls (snd (fetch_records E self start max_records v)) = calls v"
      by (simp add: fetch_records_def say_def)
  qed
  have d: "fst (search_taxid E t r v) = None \<longrightarrow>
             query_key (fst (snd (search_taxid E t r v))) = query_key r
             \<and> count (fst (snd (search_taxid E t r v))) = count r"
  proof
    assume n: "fst (search_taxid E t r v) = None"
    obtain r1 w1 where "search_taxid E t r v = (None, r1, w1)"
      using n by (cases "search_taxid E t r v") auto
    then show "query_key (fst (snd (search_taxid E t r v))) = query_key r
             \<and> count (fst (snd (search_taxid E t r v))) = count r"
      using search_taxid_None [of E t r v r1 w1] by simp
  qed
  from a b c d show ?thesis by blast
qed

lemma search_working_service:
  "search_taxid working_service ''9606'' r v =
     (Some 3, r\<lparr>webenv := Some ''MCID_1'', query_key := Some ''1'', count := Some 3\<rparr>,
      say (LineInt ''Found '' 3 '' records'')
        (request (EsearchNucleotide ''txid9606[Organism]'')
          (say (Line ''Organism: Homo sapiens (TaxID: 9606)'')
            (request (EfetchTaxonomy ''9606'')
              (say (Line ''Searching for records with taxID: 9606'') v)))))"
  by (simp add: search_taxid_def working_service_def human_taxonomy_def
      Let_def getitem_def first_item_def py_int_def py_strip_def py_isspace_def
      py_isdigit_def digit_value_def)

lemma search_no_matches_service:
  "fst (search_taxid no_matches_service ''9606'' r v) = None
   \<and> fst (snd (search_taxid no_matches_service ''9606'' r v)) = r"
  by (simp add: search_taxid_def no_matches_service_def human_taxonomy_def
      Let_def getitem_def first_item_def py_int_def py_strip_def py_isspace_def
      py_isdigit_def digit_value_def)

lemma search_missing_key_service:
  "fst (search_taxid missing_key_service ''9606'' r v) = None
   \<and> fst (snd (search_taxid missing_key_service ''9606'' r v)) = r\<lparr>webenv := Some ''MCID_1''\<rparr>"
  by (simp add: search_taxid_def search_failed_def missing_key_service_def human_taxonomy_def
      Let_def getitem_def first_item_def py_int_def py_strip_def py_isspace_def
      py_isdigit_def digit_value_def)

lemma run_two_failures:
  "fst (run_searches [(no_matches_service, ''9606''), (missing_key_service, ''9606'')] r v) = [None, None]
   \<and> fst (snd (run_searches [(no_matches_service, ''9606''), (missing_key_service, ''9606'')] r v))
       = r\<lparr>webenv := Some ''MCID_1''\<rparr>"
  using search_no_matches_service [of r v]
    search_missing_key_service [of r "snd (snd (search_taxid no_matches_service ''9606'' r v))"]
  by (simp add: case_prod_beta Let_def)

lemma run_failure_then_success:
  "fst (run_searches [(no_matches_service, ''9606''), (working_service, ''9606'')] r v) = [None, Some 3]
   \<and> fst (snd (run_searches [(no_matches_service, ''9606''), (working_service, ''9606'')] r v))
       = r\<lparr>webenv := Some ''MCID_1'', query_key := Some ''1'', count := Some 3\<rparr>"
  using search_no_matches_service [of r v]
  by (simp add: case_prod_beta Let_def search_working_service)

theorem session_state_after_searches_witness:
  "fst (run_searches [(no_matches_service, ''9606''), (missing_key_service, ''9606'')]
          (NCBIRetriever ''a@b.c'' ''key'') fresh_world) = [None, None]
   \<and> webenv (fst (snd (run_searches [(no_matches_service, ''9606''), (missing_key_service, ''9606'')]
          (NCBIRetriever ''a@b.c'' ''key'') fresh_world))) = Some ''MCID_1''
   \<and> fst (fetch_records working_service
        (fst (snd (run_searches [(no_matches_service, ''9606''), (missing_key_service, ''9606'')]
          (NCBIRetriever ''a@b.c'' ''key'') fresh_world))) 0 5 fresh_world) = EmptyList
   \<and> fst (run_searches [(no_matches_service, ''9606''), (working_service, ''9606'')]
          (NCBIRetriever ''a@b.c'' ''key'') fresh_world) = [None, Some 3]
   \<and> count (fst (snd (run_searches [(no_matches_service, ''9606''), (working_service, ''9606'')]
          (NCBIRetriever ''a@b.c'' ''key'') fresh_world))) = Some 3"
  using session_state_after_searches
      [of "[(no_matches_service, ''9606''), (missing_key_service, ''9606'')]" "''a@b.c''" "''key''" fresh_world
          "fst (run_searches [(no_matches_service, ''9606''), (missing_key_service, ''9606'')]
                 (NCBIRetriever ''a@b.c'' ''key'') fresh_world)"
          "fst (snd (run_searches [(no_matches_service, ''9606''), (missing_key_service, ''9606'')]
                 (NCBIRetriever ''a@b.c'' ''key'') fresh_world))"
          "snd (snd (run_searches [(no_matches_service, ''9606''), (missing_key_service, ''9606'')]
                 (NCBIRetriever ''a@b.c'' ''key'') fresh_world))"
          working_service 0 5 fresh_world]
    session_state_after_searches
      [of "[(no_matches_service, ''9606''), (working_service, ''9606'')]" "''a@b.c''" "''key''" fresh_world
          "fst (run_searches [(no_matches_service, ''9606''), (working_service, ''9606'')]
                 (NCBIRetriever ''a@b.c'' ''key'') fresh_world)"
          "fst (snd (run_searches [(no_matches_service, ''9606''), (working_service, ''9606'')]
                 (NCBIRetriever ''a@b.c'' ''key'') fresh_world))"
          "snd (snd (run_searches [(no_matches_service, ''9606''), (working_service, ''9606'')]
                 (NCBIRetriever ''a@b.c'' ''key'') fresh_world))"]
    run_two_failures [of "NCBIRetriever ''a@b.c'' ''key''" fresh_world]
    run_failure_then_success [of "NCBIRetriever ''a@b.c'' ''key''" fresh_world]
  by (simp add: NCBIRetriever_def)

end
